theory Spec2Isabelle
  imports Main "HOL-Library.Word"
begin

unbundle bit_operations_syntax

section \<open>State registry (utils/stateStorage)\<close>

text \<open>
  Class \<^verbatim>\<open>InMemoryStateStorage\<close>, the module the services import as
  \<^verbatim>\<open>../utils/stateStorage\<close>.
  \<^verbatim>\<open>InMemoryStateStorage\<close> keeps a \<^verbatim>\<open>Map<string, StateEntry>\<close>. The map is the
  state of the model and is passed explicitly; \<^verbatim>\<open>Date.now()\<close> is the parameter
  \<open>now\<close> (milliseconds, an integer) of every operation that reads the clock.
\<close>

record StateEntry =
  data :: string
  expires :: int

type_synonym states = "string \<rightharpoonup> StateEntry"

definition DEFAULT_EXPIRY_MS :: int where
  "DEFAULT_EXPIRY_MS = 10 * 60 * 1000"

definition saveState :: "string \<Rightarrow> string \<Rightarrow> int \<Rightarrow> int \<Rightarrow> states \<Rightarrow> states" where
  "saveState state d expiryMs now sts =
     (let stateEntry = \<lparr>data = d, expires = now + expiryMs\<rparr>
      in sts(state \<mapsto> stateEntry))"

text \<open>The result is the returned value (\<open>None\<close> for \<^verbatim>\<open>null\<close>) and the map after the call.\<close>

definition validateAndRemoveState :: "string \<Rightarrow> int \<Rightarrow> states \<Rightarrow> string option \<times> states" where
  "validateAndRemoveState state now sts =
     (let entry = sts state;
          sts' = sts(state := None)
      in case entry of
           None \<Rightarrow> (None, sts')
         | Some e \<Rightarrow> if expires e < now then (None, sts') else (Some (data e), sts'))"

definition clearExpired :: "int \<Rightarrow> states \<Rightarrow> states" where
  "clearExpired now sts =
     (\<lambda>state. case sts state of
                None \<Rightarrow> None
              | Some entry \<Rightarrow> if expires entry < now then None else Some entry)"

section \<open>Credential stores (stores/InMemoryStore.ts, stores/PostgresStore.ts)\<close>

record FortnoxTokens =
  access_token :: string
  refresh_token :: string
  expires_in :: int
  scope :: string
  token_type :: string
  expiry_date :: "int option"

subsection \<open>InMemoryStore\<close>

type_synonym InMemoryStore = "string \<rightharpoonup> FortnoxTokens"

definition mem_saveTokens :: "string \<Rightarrow> FortnoxTokens \<Rightarrow> InMemoryStore \<Rightarrow> InMemoryStore" where
  "mem_saveTokens userId tokens store = store(userId \<mapsto> tokens)"

definition mem_getTokens :: "string \<Rightarrow> InMemoryStore \<Rightarrow> FortnoxTokens option" where
  "mem_getTokens userId store = store userId"

definition mem_updateTokens :: "string \<Rightarrow> FortnoxTokens \<Rightarrow> InMemoryStore \<Rightarrow> InMemoryStore" where
  "mem_updateTokens userId tokens store = store(userId \<mapsto> tokens)"

definition mem_deleteTokens :: "string \<Rightarrow> InMemoryStore \<Rightarrow> InMemoryStore" where
  "mem_deleteTokens userId store = store(userId := None)"

subsection \<open>PostgresStore\<close>

text \<open>
  The table has \<^verbatim>\<open>user_id\<close> as primary key, so its content is a map from
  \<^verbatim>\<open>user_id\<close> to the other columns. \<^verbatim>\<open>CURRENT_TIMESTAMP\<close> is the parameter \<open>ts\<close>.
  Each method is one SQL statement; the model is the statement's effect on the table.
\<close>

record pg_row =
  row_tokens :: FortnoxTokens
  created_at :: int
  updated_at :: int

type_synonym pg_table = "string \<rightharpoonup> pg_row"

text \<open>\<^verbatim>\<open>INSERT ... ON CONFLICT (user_id) DO UPDATE SET ..., updated_at = CURRENT_TIMESTAMP\<close>\<close>

definition pg_saveTokens :: "string \<Rightarrow> FortnoxTokens \<Rightarrow> int \<Rightarrow> pg_table \<Rightarrow> pg_table" where
  "pg_saveTokens userId tokens ts tbl =
     (case tbl userId of
        None \<Rightarrow> tbl(userId \<mapsto> \<lparr>row_tokens = tokens, created_at = ts, updated_at = ts\<rparr>)
      | Some r \<Rightarrow> tbl(userId \<mapsto> r\<lparr>row_tokens := tokens, updated_at := ts\<rparr>))"

text \<open>\<^verbatim>\<open>SELECT ... WHERE user_id = $1\<close>; no row gives \<^verbatim>\<open>null\<close>.\<close>

definition pg_getTokens :: "string \<Rightarrow> pg_table \<Rightarrow> FortnoxTokens option" where
  "pg_getTokens userId tbl =
     (case tbl userId of None \<Rightarrow> None | Some r \<Rightarrow> Some (row_tokens r))"

text \<open>\<^verbatim>\<open>UPDATE ... SET ..., updated_at = CURRENT_TIMESTAMP WHERE user_id = $1\<close>\<close>

definition pg_updateTokens :: "string \<Rightarrow> FortnoxTokens \<Rightarrow> int \<Rightarrow> pg_table \<Rightarrow> pg_table" where
  "pg_updateTokens userId tokens ts tbl =
     (case tbl userId of
        None \<Rightarrow> tbl
      | Some r \<Rightarrow> tbl(userId \<mapsto> r\<lparr>row_tokens := tokens, updated_at := ts\<rparr>))"

text \<open>\<^verbatim>\<open>DELETE FROM ... WHERE user_id = $1\<close>\<close>

definition pg_deleteTokens :: "string \<Rightarrow> pg_table \<Rightarrow> pg_table" where
  "pg_deleteTokens userId tbl = tbl(userId := None)"

section \<open>Token manager (class TokenManager)\<close>

text \<open>
  Class \<^verbatim>\<open>TokenManager\<close>; its text follows class \<^verbatim>\<open>AuthorizationService\<close> in
  \<^verbatim>\<open>services/AuthorizationService.ts\<close>.

  JavaScript runs the code between two \<^verbatim>\<open>await\<close>s of an async method without
  interruption. Each such segment is a function on the manager's state; a call in flight is
  a \<open>task\<close> that records which \<^verbatim>\<open>await\<close> it is suspended at, and an \<open>event\<close> runs the
  next segment of one task. A schedule is a list of events. The promise a call returns is a
  number; \<open>settled\<close> holds the outcome of every promise that is no longer pending. The
  token store is \<^verbatim>\<open>InMemoryStore\<close>, whose methods act when they are called.
  \<open>exchanges\<close> logs every \<^verbatim>\<open>axios.post\<close> to the token endpoint (user, refresh token sent).
\<close>

datatype outcome = Resolved FortnoxTokens | Rejected string

type_synonym promise = nat

datatype task =
    GetValid_get string "FortnoxTokens option"
  | Refresh_get string "FortnoxTokens option"
  | Refresh_post string
  | Refresh_update string FortnoxTokens

text \<open>
  What the awaited \<^verbatim>\<open>axios.post\<close> produces: a 2xx response with \<^verbatim>\<open>response.data\<close>, an
  axios error that carries a response (\<^verbatim>\<open>error_description\<close> if any, and the message), or
  any other error (its message).
\<close>

datatype axios_result =
    Response FortnoxTokens
  | AxiosError "string option" string
  | OtherError string

record TokenManager =
  tokenStore :: InMemoryStore
  refreshQueue :: "string \<rightharpoonup> promise list"
  tasks :: "promise \<rightharpoonup> task"
  settled :: "promise \<rightharpoonup> outcome"
  exchanges :: "(string \<times> string) list"
  promises :: nat

definition TokenManager_new :: "InMemoryStore \<Rightarrow> TokenManager" where
  "TokenManager_new store =
     \<lparr>tokenStore = store, refreshQueue = Map.empty, tasks = Map.empty, settled = Map.empty,
      exchanges = [], promises = 0\<rparr>"

definition DEFAULT_BUFFER_MS :: int where
  "DEFAULT_BUFFER_MS = 5 * 60 * 1000"

text \<open>\<^verbatim>\<open>!tokens.expiry_date\<close> holds for a missing value and for \<^verbatim>\<open>0\<close>.\<close>

definition isTokenExpired :: "FortnoxTokens \<Rightarrow> int \<Rightarrow> int \<Rightarrow> bool" where
  "isTokenExpired tokens bufferMs now =
     (case expiry_date tokens of
        None \<Rightarrow> True
      | Some e \<Rightarrow> if e = 0 then True else e - now < bufferMs)"

definition isRefreshing :: "string \<Rightarrow> TokenManager \<Rightarrow> bool" where
  "isRefreshing userId tm = (refreshQueue tm userId \<noteq> None)"

definition setRefreshing :: "string \<Rightarrow> bool \<Rightarrow> TokenManager \<Rightarrow> TokenManager" where
  "setRefreshing userId refreshing tm =
     (if refreshing then tm\<lparr>refreshQueue := (refreshQueue tm)(userId \<mapsto> [])\<rparr>
      else tm\<lparr>refreshQueue := (refreshQueue tm)(userId := None)\<rparr>)"

text \<open>A queued callback is \<^verbatim>\<open>(tokens) => resolve(tokens)\<close>; it is named by the promise it resolves.\<close>

definition addToRefreshQueue :: "string \<Rightarrow> promise \<Rightarrow> TokenManager \<Rightarrow> TokenManager" where
  "addToRefreshQueue userId callback tm =
     (let queue = (case refreshQueue tm userId of None \<Rightarrow> [] | Some q \<Rightarrow> q)
      in tm\<lparr>refreshQueue := (refreshQueue tm)(userId \<mapsto> queue @ [callback])\<rparr>)"

text \<open>Settling a promise that is already settled has no effect.\<close>

definition settle :: "promise \<Rightarrow> outcome \<Rightarrow> TokenManager \<Rightarrow> TokenManager" where
  "settle p out tm =
     (case settled tm p of
        None \<Rightarrow> tm\<lparr>settled := (settled tm)(p \<mapsto> out)\<rparr>
      | Some _ \<Rightarrow> tm)"

text \<open>The call behind promise \<open>p\<close> ends with \<open>out\<close>.\<close>

definition finish :: "promise \<Rightarrow> outcome \<Rightarrow> TokenManager \<Rightarrow> TokenManager" where
  "finish p out tm = settle p out (tm\<lparr>tasks := (tasks tm)(p := None)\<rparr>)"

definition processRefreshQueue :: "string \<Rightarrow> FortnoxTokens option \<Rightarrow> TokenManager \<Rightarrow> TokenManager" where
  "processRefreshQueue userId tokens tm =
     (let queue = (case refreshQueue tm userId of None \<Rightarrow> [] | Some q \<Rightarrow> q);
          tm' = fold (\<lambda>callback m. case tokens of
                                      Some t \<Rightarrow> settle callback (Resolved t) m
                                    | None \<Rightarrow> m) queue tm
      in tm'\<lparr>refreshQueue := (refreshQueue tm')(userId \<mapsto> [])\<rparr>)"

text \<open>
  \<open>refreshTokens\<close> up to its first \<^verbatim>\<open>await\<close>: either the call is queued behind the refresh in
  flight and returns a promise only a queued callback resolves, or it marks the user as
  refreshing and reads the store.
\<close>

definition refreshTokens :: "string \<Rightarrow> promise \<Rightarrow> TokenManager \<Rightarrow> TokenManager" where
  "refreshTokens userId p tm =
     (if isRefreshing userId tm
      then addToRefreshQueue userId p (tm\<lparr>tasks := (tasks tm)(p := None)\<rparr>)
      else (let tm' = setRefreshing userId True tm
            in tm'\<lparr>tasks := (tasks tm')(p \<mapsto> Refresh_get userId (mem_getTokens userId (tokenStore tm')))\<rparr>))"

text \<open>The \<^verbatim>\<open>catch\<close> block, then \<^verbatim>\<open>finally\<close>, then the rejection of the call's promise.\<close>

definition refresh_failed :: "string \<Rightarrow> promise \<Rightarrow> string \<Rightarrow> TokenManager \<Rightarrow> TokenManager" where
  "refresh_failed userId p message tm =
     finish p (Rejected message) (setRefreshing userId False (processRefreshQueue userId None tm))"

definition refreshTokens_gotTokens ::
    "string \<Rightarrow> promise \<Rightarrow> FortnoxTokens option \<Rightarrow> TokenManager \<Rightarrow> TokenManager" where
  "refreshTokens_gotTokens userId p tokens tm =
     (case tokens of
        None \<Rightarrow> refresh_failed userId p ''No tokens found for user'' tm
      | Some t \<Rightarrow> tm\<lparr>exchanges := exchanges tm @ [(userId, refresh_token t)],
                     tasks := (tasks tm)(p \<mapsto> Refresh_post userId)\<rparr>)"

definition newTokens_of :: "FortnoxTokens \<Rightarrow> int \<Rightarrow> FortnoxTokens" where
  "newTokens_of response_data now =
     response_data\<lparr>expiry_date := Some (now + expires_in response_data * 1000)\<rparr>"

definition refreshTokens_gotResponse ::
    "string \<Rightarrow> promise \<Rightarrow> axios_result \<Rightarrow> int \<Rightarrow> TokenManager \<Rightarrow> TokenManager" where
  "refreshTokens_gotResponse userId p res now tm =
     (case res of
        Response response_data \<Rightarrow>
          (let newTokens = newTokens_of response_data now
           in tm\<lparr>tokenStore := mem_updateTokens userId newTokens (tokenStore tm),
                 tasks := (tasks tm)(p \<mapsto> Refresh_update userId newTokens)\<rparr>)
      | AxiosError error_description message \<Rightarrow>
          refresh_failed userId p
            (''Failed to refresh token: '' @
               (case error_description of
                  None \<Rightarrow> message
                | Some d \<Rightarrow> if d = [] then message else d)) tm
      | OtherError message \<Rightarrow> refresh_failed userId p message tm)"

definition refreshTokens_updated ::
    "string \<Rightarrow> promise \<Rightarrow> FortnoxTokens \<Rightarrow> TokenManager \<Rightarrow> TokenManager" where
  "refreshTokens_updated userId p newTokens tm =
     finish p (Resolved newTokens)
       (setRefreshing userId False (processRefreshQueue userId (Some newTokens) tm))"

text \<open>\<open>getValidTokens\<close> after its \<^verbatim>\<open>await this.tokenStore.getTokens(userId)\<close>.\<close>

definition getValidTokens_gotTokens ::
    "string \<Rightarrow> promise \<Rightarrow> FortnoxTokens option \<Rightarrow> int \<Rightarrow> TokenManager \<Rightarrow> TokenManager" where
  "getValidTokens_gotTokens userId p tokens now tm =
     (case tokens of
        None \<Rightarrow> finish p (Rejected ''No tokens found for user'') tm
      | Some t \<Rightarrow>
          if isTokenExpired t DEFAULT_BUFFER_MS now then refreshTokens userId p tm
          else finish p (Resolved t) tm)"

text \<open>
  Events: a call of a public method (its promise is the next unused number), the completion
  of the store operation a task awaits, the completion of the \<^verbatim>\<open>axios.post\<close> a task awaits.
  The integer is what \<^verbatim>\<open>Date.now()\<close> returns in the segment. An event for a promise
  without a task suspended at a matching \<^verbatim>\<open>await\<close> changes nothing.
\<close>

datatype event =
    Call_getValidTokens string
  | Call_refreshTokens string
  | Call_revokeTokens string
  | Resume promise int
  | Responded promise axios_result int

fun step :: "event \<Rightarrow> TokenManager \<Rightarrow> TokenManager" where
  "step (Call_getValidTokens userId) tm =
     tm\<lparr>tasks := (tasks tm)(promises tm \<mapsto>
                      GetValid_get userId (mem_getTokens userId (tokenStore tm))),
        promises := promises tm + 1\<rparr>"
| "step (Call_refreshTokens userId) tm =
     refreshTokens userId (promises tm) (tm\<lparr>promises := promises tm + 1\<rparr>)"
| "step (Call_revokeTokens userId) tm =
     tm\<lparr>tokenStore := mem_deleteTokens userId (tokenStore tm)\<rparr>"
| "step (Resume p now) tm =
     (case tasks tm p of
        Some (GetValid_get userId tokens) \<Rightarrow> getValidTokens_gotTokens userId p tokens now tm
      | Some (Refresh_get userId tokens) \<Rightarrow> refreshTokens_gotTokens userId p tokens tm
      | Some (Refresh_update userId newTokens) \<Rightarrow> refreshTokens_updated userId p newTokens tm
      | _ \<Rightarrow> tm)"
| "step (Responded p res now) tm =
     (case tasks tm p of
        Some (Refresh_post userId) \<Rightarrow> refreshTokens_gotResponse userId p res now tm
      | _ \<Rightarrow> tm)"

definition run :: "event list \<Rightarrow> TokenManager \<Rightarrow> TokenManager" where
  "run evs tm = fold step evs tm"

section \<open>JavaScript strings and Node buffers\<close>

text \<open>
  Where the code counts or encodes characters, a JavaScript string is the list of its UTF-16
  code units and a \<^verbatim>\<open>Buffer\<close> is a list of bytes. \<open>js\<close> writes an ASCII literal.
  The functions of this section are Node's, not the repository's; they are written out as
  Node documents them.
\<close>

type_synonym js_string = "16 word list"

type_synonym buffer = "8 word list"

definition js :: "string \<Rightarrow> js_string" where
  "js s = map (\<lambda>c. word_of_nat (of_char c)) s"

datatype js_error = Error string | RangeError string | TypeError string | SyntaxError string

definition is_high_surrogate :: "16 word \<Rightarrow> bool" where
  "is_high_surrogate u = (0xD800 \<le> u \<and> u \<le> 0xDBFF)"

definition is_low_surrogate :: "16 word \<Rightarrow> bool" where
  "is_low_surrogate u = (0xDC00 \<le> u \<and> u \<le> 0xDFFF)"

definition utf8_of_code_point :: "nat \<Rightarrow> buffer" where
  "utf8_of_code_point cp =
     (if cp < 0x80 then [word_of_nat cp]
      else if cp < 0x800 then [word_of_nat (0xC0 + cp div 64), word_of_nat (0x80 + cp mod 64)]
      else if cp < 0x10000 then
        [word_of_nat (0xE0 + cp div 4096), word_of_nat (0x80 + cp div 64 mod 64),
         word_of_nat (0x80 + cp mod 64)]
      else
        [word_of_nat (0xF0 + cp div 262144), word_of_nat (0x80 + cp div 4096 mod 64),
         word_of_nat (0x80 + cp div 64 mod 64), word_of_nat (0x80 + cp mod 64)])"

text \<open>
  The UTF-8 encoding of a string (\<^verbatim>\<open>Buffer.from(s)\<close>, input encoding \<^verbatim>\<open>'utf8'\<close>): a
  surrogate pair is one code point, an unpaired surrogate is encoded as U+FFFD.
\<close>

fun utf8_encode :: "js_string \<Rightarrow> buffer" where
  "utf8_encode [] = []"
| "utf8_encode [u] =
     (if is_high_surrogate u \<or> is_low_surrogate u then utf8_of_code_point 0xFFFD
      else utf8_of_code_point (unat u))"
| "utf8_encode (u # v # us) =
     (if is_high_surrogate u \<and> is_low_surrogate v
      then utf8_of_code_point (0x10000 + (unat u - 0xD800) * 1024 + (unat v - 0xDC00))
             @ utf8_encode us
      else if is_high_surrogate u \<or> is_low_surrogate u
      then utf8_of_code_point 0xFFFD @ utf8_encode (v # us)
      else utf8_of_code_point (unat u) @ utf8_encode (v # us))"

text \<open>\<^verbatim>\<open>buf.toString('hex')\<close>: two lower-case digits per byte.\<close>

definition hex_byte :: "8 word \<Rightarrow> js_string" where
  "hex_byte b = [js ''0123456789abcdef'' ! (unat b div 16), js ''0123456789abcdef'' ! (unat b mod 16)]"

definition hex_encode :: "buffer \<Rightarrow> js_string" where
  "hex_encode bs = concat (map hex_byte bs)"

text \<open>
  \<^verbatim>\<open>Buffer.from(s, 'hex')\<close>: digits of either case, two per byte. Only the low byte of a
  UTF-16 code unit is looked at (U+0130 counts as the digit 0, U+0141 as the digit A).
  Decoding stops at the first pair in which a low byte is not a hexadecimal digit, and a
  single trailing character is dropped.
\<close>

definition hex_value :: "16 word \<Rightarrow> nat option" where
  "hex_value c =
     (let b = unat c mod 256
      in if 0x30 \<le> b \<and> b \<le> 0x39 then Some (b - 0x30)
         else if 0x61 \<le> b \<and> b \<le> 0x66 then Some (b - 0x61 + 10)
         else if 0x41 \<le> b \<and> b \<le> 0x46 then Some (b - 0x41 + 10)
         else None)"

fun hex_decode :: "js_string \<Rightarrow> buffer" where
  "hex_decode (a # b # rest) =
     (case hex_value a of
        None \<Rightarrow> []
      | Some h \<Rightarrow>
          (case hex_value b of
             None \<Rightarrow> []
           | Some l \<Rightarrow> word_of_nat (16 * h + l) # hex_decode rest))"
| "hex_decode [a] = []"
| "hex_decode [] = []"

text \<open>\<^verbatim>\<open>buf.toString('base64url')\<close>: six bits per character, URL-safe alphabet, no padding.\<close>

fun sextets :: "buffer \<Rightarrow> nat list" where
  "sextets (a # b # c # rest) =
     [unat a div 4, unat a mod 4 * 16 + unat b div 16, unat b mod 16 * 4 + unat c div 64,
      unat c mod 64] @ sextets rest"
| "sextets [a, b] = [unat a div 4, unat a mod 4 * 16 + unat b div 16, unat b mod 16 * 4]"
| "sextets [a] = [unat a div 4, unat a mod 4 * 16]"
| "sextets [] = []"

definition base64url :: "buffer \<Rightarrow> js_string" where
  "base64url bs =
     map (\<lambda>i. js ''ABCDEFGHIJKLMNOPQRSTUVWXYZabcdefghijklmnopqrstuvwxyz0123456789-_'' ! i)
       (sextets bs)"

text \<open>\<^verbatim>\<open>crypto.timingSafeEqual\<close> throws a \<^verbatim>\<open>RangeError\<close> on buffers of different byte length.\<close>

definition timingSafeEqual :: "buffer \<Rightarrow> buffer \<Rightarrow> js_error + bool" where
  "timingSafeEqual a b =
     (if length a \<noteq> length b
      then Inl (RangeError ''Input buffers must have the same byte length'')
      else Inr (a = b))"

section \<open>PKCE (utils/PKCE)\<close>

text \<open>
  The functions the services import from \<^verbatim>\<open>../utils/PKCE\<close>; their text follows the
  codec and the types in \<^verbatim>\<open>stores/TokenEncryption.ts\<close>.

  \<^verbatim>\<open>crypto.randomBytes\<close> and the SHA-256 digest are parameters: \<open>randomBytes n\<close> is the
  buffer the call returns, \<open>sha256\<close> maps the hashed bytes to the digest.
\<close>

definition createCodeVerifier :: "(nat \<Rightarrow> buffer) \<Rightarrow> int \<Rightarrow> js_error + js_string" where
  "createCodeVerifier randomBytes len =
     (if len < 43 \<or> len > 128
      then Inl (Error ''Code verifier length must be between 43 and 128 characters'')
      else Inr (take (nat len) (base64url (randomBytes (nat len)))))"

definition createCodeChallenge :: "(buffer \<Rightarrow> buffer) \<Rightarrow> js_string \<Rightarrow> js_error + js_string" where
  "createCodeChallenge sha256 codeVerifier =
     (if codeVerifier = [] \<or> length codeVerifier < 43 \<or> length codeVerifier > 128
      then Inl (Error ''Invalid code verifier'')
      else (let hash = base64url (sha256 (utf8_encode codeVerifier)) in Inr hash))"

definition verifyCodeChallenge ::
    "(buffer \<Rightarrow> buffer) \<Rightarrow> js_string \<Rightarrow> js_string \<Rightarrow> js_error + bool" where
  "verifyCodeChallenge sha256 codeVerifier codeChallenge =
     (if codeVerifier = [] \<or> codeChallenge = [] then Inr False
      else case createCodeChallenge sha256 codeVerifier of
             Inl e \<Rightarrow> Inl e
           | Inr calculatedChallenge \<Rightarrow>
               timingSafeEqual (utf8_encode calculatedChallenge) (utf8_encode codeChallenge))"

section \<open>Token codec (stores/TokenEncryption.ts)\<close>

text \<open>
  The cipher is Node's \<^verbatim>\<open>aes-256-gcm\<close>. It is a parameter of the codec, as is the decoding
  of the decrypted bytes to a string:
  \<^item> \<open>gcm_encrypt key iv plaintext\<close> is the ciphertext and the authentication tag
    (\<^verbatim>\<open>createCipheriv\<close>, \<^verbatim>\<open>update\<close>, \<^verbatim>\<open>final\<close>, \<^verbatim>\<open>getAuthTag\<close>);
  \<^item> \<open>gcm_decrypt key iv tag ciphertext\<close> is the plaintext, or the message of the error
    that \<^verbatim>\<open>createDecipheriv\<close>, \<^verbatim>\<open>setAuthTag\<close>, \<^verbatim>\<open>update\<close> or \<^verbatim>\<open>final\<close> throws;
  \<^item> \<open>utf8_decode\<close> is the output encoding \<^verbatim>\<open>'utf8'\<close> of the decipher.
  The initialisation vector that \<^verbatim>\<open>crypto.randomBytes(IV_LENGTH)\<close> returns is the
  argument \<open>iv\<close> of \<open>encrypt\<close>.
\<close>

record node =
  gcm_encrypt :: "buffer \<Rightarrow> buffer \<Rightarrow> buffer \<Rightarrow> buffer \<times> buffer"
  gcm_decrypt :: "buffer \<Rightarrow> buffer \<Rightarrow> buffer \<Rightarrow> buffer \<Rightarrow> string + buffer"
  utf8_decode :: "buffer \<Rightarrow> js_string"

definition IV_LENGTH :: nat where
  "IV_LENGTH = 16"

definition AUTH_TAG_LENGTH :: nat where
  "AUTH_TAG_LENGTH = 16"

definition KEY_LENGTH :: nat where
  "KEY_LENGTH = 32"

record TokenEncryption =
  encryptionKey :: "buffer option"
  enforceEncryption :: bool

text \<open>\<^verbatim>\<open>options.encryptionKey\<close> is a \<^verbatim>\<open>Buffer\<close> or a hex string.\<close>

datatype key_option = KeyBuffer buffer | KeyString js_string

text \<open>
  The constructor. An empty string is falsy, so it counts as no key; a string is decoded
  as hex; the length check comes before the check of \<^verbatim>\<open>enforceEncryption\<close>.
\<close>

definition TokenEncryption_new :: "key_option option \<Rightarrow> bool option \<Rightarrow> js_error + TokenEncryption" where
  "TokenEncryption_new optEncryptionKey optEnforceEncryption =
     (let key = (case optEncryptionKey of
                   None \<Rightarrow> None
                 | Some (KeyString s) \<Rightarrow> if s = [] then None else Some (hex_decode s)
                 | Some (KeyBuffer b) \<Rightarrow> Some b);
          enforce = (case optEnforceEncryption of None \<Rightarrow> False | Some b \<Rightarrow> b)
      in case key of
           Some k \<Rightarrow>
             if length k \<noteq> KEY_LENGTH
             then Inl (Error ''Encryption key must be 32 bytes (256 bits)'')
             else Inr \<lparr>encryptionKey = Some k, enforceEncryption = enforce\<rparr>
         | None \<Rightarrow>
             if enforce
             then Inl (Error ''Encryption key is required when enforceEncryption is true'')
             else Inr \<lparr>encryptionKey = None, enforceEncryption = enforce\<rparr>)"

definition encrypt :: "node \<Rightarrow> TokenEncryption \<Rightarrow> buffer \<Rightarrow> js_string \<Rightarrow> js_error + js_string" where
  "encrypt N te iv text =
     (case encryptionKey te of
        None \<Rightarrow>
          if enforceEncryption te then Inl (Error ''Cannot encrypt: No encryption key is set'')
          else Inr text
      | Some key \<Rightarrow>
          (let (ciphertext, authTag) = gcm_encrypt N key iv (utf8_encode text);
               encrypted = hex_encode ciphertext
           in Inr (hex_encode (iv @ authTag @ hex_decode encrypted))))"

definition decrypt :: "node \<Rightarrow> TokenEncryption \<Rightarrow> js_string \<Rightarrow> js_error + js_string" where
  "decrypt N te encryptedText =
     (case encryptionKey te of
        None \<Rightarrow>
          if enforceEncryption te then Inl (Error ''Cannot decrypt: No encryption key is set'')
          else Inr encryptedText
      | Some key \<Rightarrow>
          (let encryptedBuffer = hex_decode encryptedText;
               iv = take IV_LENGTH encryptedBuffer;
               authTag = take AUTH_TAG_LENGTH (drop IV_LENGTH encryptedBuffer);
               encryptedData = hex_encode (drop (IV_LENGTH + AUTH_TAG_LENGTH) encryptedBuffer)
           in case gcm_decrypt N key iv authTag (hex_decode encryptedData) of
                Inl message \<Rightarrow> Inl (Error (''Decryption failed: '' @ message))
              | Inr decrypted \<Rightarrow> Inr (utf8_decode N decrypted)))"

text \<open>
  An instance of the parameters for closed examples: every byte is XORed with a constant,
  and the tag is the first 16 key bytes XORed with the initialisation vector. It has the
  interface of the cipher, not its strength, and decodes ASCII only.
\<close>

definition toy_node :: node where
  "toy_node =
     \<lparr>gcm_encrypt = (\<lambda>key iv plaintext.
         (map (\<lambda>b. b XOR 0x5A) plaintext, map2 (XOR) (take 16 key) iv)),
      gcm_decrypt = (\<lambda>key iv tag ciphertext.
         if iv \<noteq> [] \<and> tag = map2 (XOR) (take 16 key) iv
         then Inr (map (\<lambda>b. b XOR 0x5A) ciphertext)
         else Inl ''Unsupported state or unable to authenticate data''),
      utf8_decode = map ucast\<rparr>"

section \<open>Authorization service (class AuthorizationService)\<close>

text \<open>
  Method \<^verbatim>\<open>validateState\<close> of \<^verbatim>\<open>services/AuthorizationService.ts\<close>.

  \<^verbatim>\<open>JSON.parse\<close> is a parameter: it returns the parsed value or the error it throws. An
  object lists each of its properties once. Numbers are not inspected.
\<close>

datatype json =
    JNull
  | JBool bool
  | JNumber int
  | JString string
  | JArray "json list"
  | JObject "(string \<times> json) list"

text \<open>
  The body of the \<^verbatim>\<open>try\<close> block: parse, then destructure \<^verbatim>\<open>userId\<close> and
  \<^verbatim>\<open>codeVerifier\<close>. Destructuring \<^verbatim>\<open>null\<close> throws; destructuring any other value gives
  the property or \<^verbatim>\<open>undefined\<close> (\<open>None\<close>).
\<close>

definition parse_stateData ::
    "(string \<Rightarrow> js_error + json) \<Rightarrow> string \<Rightarrow> js_error + (json option \<times> json option)" where
  "parse_stateData JSON_parse stateData =
     (case JSON_parse stateData of
        Inl e \<Rightarrow> Inl e
      | Inr JNull \<Rightarrow> Inl (TypeError ''Cannot destructure property userId of null'')
      | Inr (JObject props) \<Rightarrow> Inr (map_of props ''userId'', map_of props ''codeVerifier'')
      | Inr _ \<Rightarrow> Inr (None, None))"

text \<open>
  \<open>validateState\<close> on the in-memory state storage. The result is what the method throws
  (\<open>Inl\<close>) or returns (\<open>Inr\<close>, with \<open>None\<close> for \<^verbatim>\<open>null\<close>), and the storage after the call.
\<close>

definition validateState ::
    "(string \<Rightarrow> js_error + json) \<Rightarrow> string \<Rightarrow> int \<Rightarrow> states
       \<Rightarrow> (js_error + (json option \<times> json option) option) \<times> states" where
  "validateState JSON_parse state now sts =
     (let (stateData, sts') = validateAndRemoveState state now sts
      in case stateData of
           None \<Rightarrow> (Inr None, sts')
         | Some d \<Rightarrow>
             if d = [] then (Inr None, sts')
             else (case parse_stateData JSON_parse d of
                     Inl error \<Rightarrow> (Inr None, sts')
                   | Inr r \<Rightarrow> (Inr (Some r), sts')))"


text \<open>
  A promise is orphaned when it is pending, no task will settle it and no queue holds a
  callback for it.
\<close>

definition orphaned :: "promise \<Rightarrow> TokenManager \<Rightarrow> bool" where
  "orphaned q tm =
     (settled tm q = None \<and> tasks tm q = None \<and> q < promises tm
      \<and> (\<forall>u queue. refreshQueue tm u = Some queue \<longrightarrow> q \<notin> set queue))"

section \<open>Properties of the state registry\<close>

text \<open>
  C6. After \<open>saveState s d ttl\<close> the entry is physically in the map. The first
  \<open>validateAndRemoveState s\<close> no later than the expiry returns \<open>d\<close>, and a second call,
  at any time, returns nothing. A first call after the expiry returns nothing although the
  entry is still in the map. In every case, whatever the map held, the key is gone after
  the call.
\<close>

theorem take_once_then_absent:
  "saveState s d ttl now0 sts s = Some \<lparr>data = d, expires = now0 + ttl\<rparr>
   \<and> (now1 \<le> now0 + ttl \<longrightarrow>
        fst (validateAndRemoveState s now1 (saveState s d ttl now0 sts)) = Some d
      \<and> fst (validateAndRemoveState s now2
               (snd (validateAndRemoveState s now1 (saveState s d ttl now0 sts)))) = None)
   \<and> (now0 + ttl < now1 \<longrightarrow>
        fst (validateAndRemoveState s now1 (saveState s d ttl now0 sts)) = None)
   \<and> snd (validateAndRemoveState s now sts0) s = None"
  by (simp add: saveState_def validateAndRemoveState_def Let_def split: option.split)

theorem take_once_then_absent_witness:
  "(1500::int) \<le> 1000 + 600000 \<and> (1000::int) + 600000 < 700000
   \<and> fst (validateAndRemoveState ''st'' 1500 (saveState ''st'' ''payload'' 600000 1000 Map.empty))
       = Some ''payload''
   \<and> fst (validateAndRemoveState ''st'' 1600
            (snd (validateAndRemoveState ''st'' 1500
                    (saveState ''st'' ''payload'' 600000 1000 Map.empty)))) = None
   \<and> saveState ''st'' ''payload'' 600000 1000 Map.empty ''st''
       = Some \<lparr>data = ''payload'', expires = 601000\<rparr>
   \<and> fst (validateAndRemoveState ''st'' 700000 (saveState ''st'' ''payload'' 600000 1000 Map.empty))
       = None"
proof -
  have early: "(1500::int) \<le> 1000 + 600000" and late: "(1000::int) + 600000 < 700000"
    by simp_all
  note inst = take_once_then_absent
    [where s = "''st''" and d = "''payload''" and ttl = 600000 and ?now0.0 = 1000
       and sts = Map.empty and ?now2.0 = 1600 and now = 0 and ?sts0.0 = Map.empty]
  from inst [where ?now1.0 = 1500] early
  have a: "fst (validateAndRemoveState ''st'' 1500
                  (saveState ''st'' ''payload'' 600000 1000 Map.empty)) = Some ''payload''
     \<and> fst (validateAndRemoveState ''st'' 1600
            (snd (validateAndRemoveState ''st'' 1500
                    (saveState ''st'' ''payload'' 600000 1000 Map.empty)))) = None"
    by blast
  from inst [where ?now1.0 = 700000] late
  have b: "saveState ''st'' ''payload'' 600000 1000 Map.empty ''st''
             = Some \<lparr>data = ''payload'', expires = 1000 + 600000\<rparr>
     \<and> fst (validateAndRemoveState ''st'' 700000
              (saveState ''st'' ''payload'' 600000 1000 Map.empty)) = None"
    by blast
  from a b early late show ?thesis by simp
qed

section \<open>Properties of the Postgres store\<close>

text \<open>
  C7 as stated fails: \<open>updateTokens\<close> is a plain \<^verbatim>\<open>UPDATE\<close>; on a table without a row
  for the user it changes nothing, and \<open>getTokens\<close> still finds nothing.
\<close>

theorem pg_update_not_upsert:
  "pg_getTokens ''u1''
     (pg_updateTokens ''u1''
        \<lparr>access_token = ''a'', refresh_token = ''r'', expires_in = 3600, scope = ''s'',
         token_type = ''bearer'', expiry_date = Some 5000\<rparr> 7 Map.empty) = None"
  by (simp add: pg_getTokens_def pg_updateTokens_def)

text \<open>
  C7, amended. \<open>saveTokens\<close> is an upsert with last write wins: afterwards the store holds
  the tokens for the user, whether or not a row existed, and other users are untouched.
  \<open>updateTokens\<close> replaces the tokens of an existing row (last write wins) and leaves a
  table without a row for the user unchanged.
\<close>

theorem pg_save_upsert_update_in_place:
  "pg_getTokens u (pg_saveTokens u t ts tbl) = Some t
   \<and> (u' \<noteq> u \<longrightarrow> pg_getTokens u' (pg_saveTokens u t ts tbl) = pg_getTokens u' tbl)
   \<and> pg_getTokens u (pg_saveTokens u t2 ts2 (pg_saveTokens u t ts tbl)) = Some t2
   \<and> (tbl u \<noteq> None \<longrightarrow> pg_getTokens u (pg_updateTokens u t ts tbl) = Some t)
   \<and> (tbl u = None \<longrightarrow> pg_updateTokens u t ts tbl = tbl)
   \<and> (u' \<noteq> u \<longrightarrow> pg_getTokens u' (pg_updateTokens u t ts tbl) = pg_getTokens u' tbl)"
  by (simp add: pg_getTokens_def pg_saveTokens_def pg_updateTokens_def split: option.split)

theorem pg_save_upsert_update_in_place_witness:
  "pg_getTokens ''u1''
     (pg_updateTokens ''u1''
        \<lparr>access_token = ''a2'', refresh_token = ''r2'', expires_in = 3600, scope = ''s'',
         token_type = ''bearer'', expiry_date = Some 9000\<rparr> 8
        (pg_saveTokens ''u1''
           \<lparr>access_token = ''a'', refresh_token = ''r'', expires_in = 3600, scope = ''s'',
            token_type = ''bearer'', expiry_date = Some 5000\<rparr> 7 Map.empty))
   = Some \<lparr>access_token = ''a2'', refresh_token = ''r2'', expires_in = 3600, scope = ''s'',
           token_type = ''bearer'', expiry_date = Some 9000\<rparr>
   \<and> pg_getTokens ''u2''
        (pg_saveTokens ''u1''
           \<lparr>access_token = ''a'', refresh_token = ''r'', expires_in = 3600, scope = ''s'',
            token_type = ''bearer'', expiry_date = Some 5000\<rparr> 7 Map.empty) = None
   \<and> pg_updateTokens ''u1''
        \<lparr>access_token = ''a'', refresh_token = ''r'', expires_in = 3600, scope = ''s'',
         token_type = ''bearer'', expiry_date = Some 5000\<rparr> 7 Map.empty = Map.empty"
proof -
  let ?t = "\<lparr>access_token = ''a'', refresh_token = ''r'', expires_in = 3600, scope = ''s'',
            token_type = ''bearer'', expiry_date = Some 5000\<rparr>"
  let ?t2 = "\<lparr>access_token = ''a2'', refresh_token = ''r2'', expires_in = 3600, scope = ''s'',
             token_type = ''bearer'', expiry_date = Some 9000\<rparr>"
  let ?tbl = "pg_saveTokens ''u1'' ?t 7 Map.empty"
  have row: "?tbl ''u1'' \<noteq> None"
    by (simp add: pg_saveTokens_def)
  have no_row: "(Map.empty :: pg_table) ''u1'' = None"
    by simp
  have ne: "''u2'' \<noteq> ''u1''"
    by simp
  from pg_save_upsert_update_in_place [of "''u1''" ?t2 8 ?tbl "''u2''" ?t2 8]
  have "pg_getTokens ''u1'' (pg_updateTokens ''u1'' ?t2 8 ?tbl) = Some ?t2"
    using row by blast
  moreover from pg_save_upsert_update_in_place [of "''u1''" ?t 7 Map.empty "''u2''" ?t 7]
  have "pg_getTokens ''u2'' ?tbl = pg_getTokens ''u2'' Map.empty"
    and "pg_updateTokens ''u1'' ?t 7 Map.empty = Map.empty"
    using ne no_row by blast+
  ultimately show ?thesis
    by (simp add: pg_getTokens_def)
qed

section \<open>Properties of the token manager\<close>

lemma run_append: "run (xs @ ys) tm = run ys (run xs tm)"
  by (simp add: run_def)

lemma run_Cons: "run (x # xs) tm = run xs (step x tm)"
  by (simp add: run_def)

lemma run_Nil: "run [] tm = tm"
  by (simp add: run_def)




lemma settle_fields:
  "tokenStore (settle p out tm) = tokenStore tm
   \<and> refreshQueue (settle p out tm) = refreshQueue tm
   \<and> tasks (settle p out tm) = tasks tm
   \<and> exchanges (settle p out tm) = exchanges tm
   \<and> promises (settle p out tm) = promises tm
   \<and> settled (settle p out tm) =
       (\<lambda>x. if x = p \<and> settled tm p = None then Some out else settled tm x)"
  by (auto simp add: settle_def fun_eq_iff split: option.splits)

lemma fold_settle_fields:
  "tokenStore (fold (\<lambda>callback m. settle callback out m) queue tm) = tokenStore tm
   \<and> refreshQueue (fold (\<lambda>callback m. settle callback out m) queue tm) = refreshQueue tm
   \<and> tasks (fold (\<lambda>callback m. settle callback out m) queue tm) = tasks tm
   \<and> exchanges (fold (\<lambda>callback m. settle callback out m) queue tm) = exchanges tm
   \<and> promises (fold (\<lambda>callback m. settle callback out m) queue tm) = promises tm
   \<and> settled (fold (\<lambda>callback m. settle callback out m) queue tm) =
       (\<lambda>x. if x \<in> set queue \<and> settled tm x = None then Some out else settled tm x)"
proof (induction queue arbitrary: tm)
  case Nil
  then show ?case by simp
next
  case (Cons a queue)
  show ?case
    by (auto simp add: Cons settle_fields fun_eq_iff)
qed






lemma orphaned_settle: "p \<noteq> q \<Longrightarrow> orphaned q tm \<Longrightarrow> orphaned q (settle p out tm)"
  by (simp add: orphaned_def settle_fields)

lemma orphaned_finish: "p \<noteq> q \<Longrightarrow> orphaned q tm \<Longrightarrow> orphaned q (finish p out tm)"
  by (simp add: orphaned_def finish_def settle_fields)

lemma orphaned_setRefreshing: "orphaned q tm \<Longrightarrow> orphaned q (setRefreshing u b tm)"
  by (simp add: orphaned_def setRefreshing_def)

lemma orphaned_addToRefreshQueue:
  "p \<noteq> q \<Longrightarrow> orphaned q tm \<Longrightarrow> orphaned q (addToRefreshQueue u p tm)"
  by (auto simp add: orphaned_def addToRefreshQueue_def Let_def split: option.splits)

lemma fold_skip: "fold (\<lambda>callback m. m) queue tm = tm"
  by (induction queue) simp_all

lemma orphaned_processRefreshQueue:
  assumes "orphaned q tm"
  shows "orphaned q (processRefreshQueue u tokens tm)"
proof (cases tokens)
  case None
  with assms show ?thesis
    by (simp add: orphaned_def processRefreshQueue_def Let_def fold_skip)
next
  case (Some t)
  with assms show ?thesis
    by (auto simp add: orphaned_def processRefreshQueue_def Let_def fold_settle_fields
          split: option.splits)
qed

lemma orphaned_refreshTokens:
  "p \<noteq> q \<Longrightarrow> orphaned q tm \<Longrightarrow> orphaned q (refreshTokens u p tm)"
  by (auto simp add: refreshTokens_def Let_def orphaned_def addToRefreshQueue_def
        setRefreshing_def split: option.splits)

lemma orphaned_refresh_failed:
  "p \<noteq> q \<Longrightarrow> orphaned q tm \<Longrightarrow> orphaned q (refresh_failed u p m tm)"
  by (simp add: refresh_failed_def orphaned_finish orphaned_setRefreshing
        orphaned_processRefreshQueue)

lemma orphaned_step:
  assumes "orphaned q tm"
  shows "orphaned q (step ev tm)"
proof (cases ev)
  case (Call_getValidTokens u)
  with assms show ?thesis by (auto simp add: orphaned_def)
next
  case (Call_refreshTokens u)
  have "orphaned q (tm\<lparr>promises := promises tm + 1\<rparr>)"
    using assms by (simp add: orphaned_def)
  moreover have "promises tm \<noteq> q" using assms by (simp add: orphaned_def)
  ultimately show ?thesis
    using Call_refreshTokens by (simp add: orphaned_refreshTokens)
next
  case (Call_revokeTokens u)
  with assms show ?thesis by (simp add: orphaned_def)
next
  case (Resume p now)
  show ?thesis
  proof (cases "tasks tm p")
    case None
    with Resume assms show ?thesis by simp
  next
    case (Some tk)
    then have pq: "p \<noteq> q" using assms by (auto simp add: orphaned_def)
    show ?thesis
    proof (cases tk)
      case (GetValid_get u tokens)
      with Some Resume pq assms show ?thesis
        by (simp add: getValidTokens_gotTokens_def orphaned_finish orphaned_refreshTokens
              split: option.splits)
    next
      case (Refresh_get u tokens)
      have "orphaned q (tm\<lparr>exchanges := xs, tasks := (tasks tm)(p \<mapsto> tk')\<rparr>)" for xs tk'
        using assms pq by (simp add: orphaned_def)
      with Refresh_get Some Resume pq assms show ?thesis
        by (simp add: refreshTokens_gotTokens_def orphaned_refresh_failed split: option.splits)
    next
      case (Refresh_post u)
      with Some Resume assms show ?thesis by simp
    next
      case (Refresh_update u newTokens)
      with Some Resume pq assms show ?thesis
        by (simp add: refreshTokens_updated_def orphaned_finish orphaned_setRefreshing
              orphaned_processRefreshQueue)
    qed
  qed
next
  case (Responded p res now)
  show ?thesis
  proof (cases "tasks tm p")
    case None
    with Responded assms show ?thesis by simp
  next
    case (Some tk)
    then have pq: "p \<noteq> q" using assms by (auto simp add: orphaned_def)
    have upd: "orphaned q (tm\<lparr>tokenStore := s, tasks := (tasks tm)(p \<mapsto> tk')\<rparr>)" for s tk'
      using assms pq by (simp add: orphaned_def)
    show ?thesis
      using Some Responded pq assms upd
      by (cases tk; cases res)
         (simp_all add: refreshTokens_gotResponse_def Let_def orphaned_refresh_failed)
  qed
qed

lemma orphaned_run: "orphaned q tm \<Longrightarrow> orphaned q (run evs tm)"
  by (induction evs arbitrary: tm) (simp_all add: run_Nil run_Cons orphaned_step)

text \<open>
  C1 fails on the code. User \<open>user-1\<close> has a credential; \<open>refreshTokens\<close> is called twice.
  The first call (promise 0) starts the exchange, the second (promise 1) is queued behind it.
  The token endpoint rejects the exchange: promise 0 is rejected with the error, and
  \<open>processRefreshQueue(userId, null)\<close> drops the queued callback without calling it.
  Whatever happens afterwards (\<open>evs\<close> is any further schedule), promise 1 is never settled.
\<close>

theorem waiter_never_settled:
  "settled (run [Call_refreshTokens ''user-1'', Call_refreshTokens ''user-1'', Resume 0 6000,
                 Responded 0 (AxiosError (Some ''invalid_grant'') ''Request failed'') 7000]
             (TokenManager_new [''user-1'' \<mapsto>
                \<lparr>access_token = ''a'', refresh_token = ''r'', expires_in = 3600, scope = ''s'',
                 token_type = ''bearer'', expiry_date = Some 5000\<rparr>])) 0
     = Some (Rejected ''Failed to refresh token: invalid_grant'')
   \<and> settled (run ([Call_refreshTokens ''user-1'', Call_refreshTokens ''user-1'', Resume 0 6000,
                 Responded 0 (AxiosError (Some ''invalid_grant'') ''Request failed'') 7000] @ evs)
             (TokenManager_new [''user-1'' \<mapsto>
                \<lparr>access_token = ''a'', refresh_token = ''r'', expires_in = 3600, scope = ''s'',
                 token_type = ''bearer'', expiry_date = Some 5000\<rparr>])) 1 = None"
proof -
  let ?old = "\<lparr>access_token = ''a'', refresh_token = ''r'', expires_in = 3600, scope = ''s'',
                 token_type = ''bearer'', expiry_date = Some 5000\<rparr>"
  let ?failed = "run [Call_refreshTokens ''user-1'', Call_refreshTokens ''user-1'', Resume 0 6000,
                 Responded 0 (AxiosError (Some ''invalid_grant'') ''Request failed'') 7000]
             (TokenManager_new [''user-1'' \<mapsto> ?old])"
  have failed: "?failed =
      \<lparr>tokenStore = [''user-1'' \<mapsto> ?old], refreshQueue = Map.empty, tasks = Map.empty,
       settled = [0 \<mapsto> Rejected ''Failed to refresh token: invalid_grant''],
       exchanges = [(''user-1'', ''r'')], promises = 2\<rparr>"
    by (simp add: run_def TokenManager_new_def refreshTokens_def isRefreshing_def
          setRefreshing_def addToRefreshQueue_def mem_getTokens_def refreshTokens_gotTokens_def
          refreshTokens_gotResponse_def refresh_failed_def processRefreshQueue_def finish_def
          settle_def Let_def fun_eq_iff)
  have "orphaned 1 ?failed"
    unfolding failed by (simp add: orphaned_def)
  then have "orphaned 1 (run evs ?failed)"
    by (rule orphaned_run)
  then have "settled (run evs ?failed) 1 = None"
    by (simp add: orphaned_def)
  then show ?thesis
    unfolding run_append using failed by simp
qed

text \<open>
  C3. A call of \<open>getValidTokens u\<close> (promise \<open>p\<close>) and its continuation at clock \<open>now\<close>
  (\<open>tm1\<close>), followed by one more continuation of the same promise (\<open>tm2\<close>). Without a stored
  credential the promise is rejected with \<open>No tokens found for user\<close>. With a stored
  credential \<open>t\<close>: if \<open>t\<close> has no expiry date, or its expiry date minus \<open>now\<close> is below
  300000 ms, the call goes through \<open>refreshTokens\<close> (it issues the exchange when the user is
  idle, and joins the queue of the refresh in flight otherwise); in every other case it
  resolves with \<open>t\<close> and issues no exchange, and store and queue are untouched. The clock is
  not negative (\<^verbatim>\<open>Date.now()\<close> counts milliseconds since the epoch).
\<close>

theorem getValidTokens_decision:
  fixes tm :: TokenManager and u :: string and now now' :: int
  defines "p \<equiv> promises tm"
    and "tm1 \<equiv> run [Call_getValidTokens u, Resume (promises tm) now] tm"
    and "tm2 \<equiv> run [Call_getValidTokens u, Resume (promises tm) now, Resume (promises tm) now'] tm"
  assumes clock: "0 \<le> now" and fresh: "settled tm (promises tm) = None"
  shows "(tokenStore tm u = None \<longrightarrow>
            settled tm1 p = Some (Rejected ''No tokens found for user'')
          \<and> exchanges tm2 = exchanges tm \<and> tokenStore tm2 = tokenStore tm
          \<and> refreshQueue tm2 = refreshQueue tm)
       \<and> (\<forall>t. tokenStore tm u = Some t \<longrightarrow>
            (if expiry_date t = None \<or> (\<exists>e. expiry_date t = Some e \<and> e - now < 300000)
             then settled tm1 p = None
                \<and> (refreshQueue tm u = None \<longrightarrow>
                      refreshQueue tm1 u = Some []
                    \<and> exchanges tm2 = exchanges tm @ [(u, refresh_token t)])
                \<and> (\<forall>q. refreshQueue tm u = Some q \<longrightarrow>
                      refreshQueue tm1 u = Some (q @ [p]) \<and> exchanges tm2 = exchanges tm)
             else settled tm1 p = Some (Resolved t)
                \<and> exchanges tm2 = exchanges tm \<and> tokenStore tm2 = tokenStore tm
                \<and> refreshQueue tm2 = refreshQueue tm))"
proof -
  have none: "tokenStore tm u = None \<Longrightarrow>
            settled tm1 p = Some (Rejected ''No tokens found for user'')
          \<and> exchanges tm2 = exchanges tm \<and> tokenStore tm2 = tokenStore tm
          \<and> refreshQueue tm2 = refreshQueue tm"
    using fresh
    by (simp add: tm1_def tm2_def p_def run_def mem_getTokens_def getValidTokens_gotTokens_def
          finish_def settle_def)
  have cond: "isTokenExpired t DEFAULT_BUFFER_MS now
               = (expiry_date t = None \<or> (\<exists>e. expiry_date t = Some e \<and> e - now < 300000))" for t
    using clock by (auto simp add: isTokenExpired_def DEFAULT_BUFFER_MS_def split: option.splits)
  have valid: "settled tm1 p = Some (Resolved t)
                \<and> exchanges tm2 = exchanges tm \<and> tokenStore tm2 = tokenStore tm
                \<and> refreshQueue tm2 = refreshQueue tm"
    if "tokenStore tm u = Some t" "\<not> isTokenExpired t DEFAULT_BUFFER_MS now" for t
    using that fresh
    by (simp add: tm1_def tm2_def p_def run_def mem_getTokens_def getValidTokens_gotTokens_def
          finish_def settle_def)
  have expired: "settled tm1 p = None
                \<and> (refreshQueue tm u = None \<longrightarrow>
                      refreshQueue tm1 u = Some []
                    \<and> exchanges tm2 = exchanges tm @ [(u, refresh_token t)])
                \<and> (\<forall>q. refreshQueue tm u = Some q \<longrightarrow>
                      refreshQueue tm1 u = Some (q @ [p]) \<and> exchanges tm2 = exchanges tm)"
    if "tokenStore tm u = Some t" "isTokenExpired t DEFAULT_BUFFER_MS now" for t
    using that fresh
    by (auto simp add: tm1_def tm2_def p_def run_def mem_getTokens_def getValidTokens_gotTokens_def
          refreshTokens_def isRefreshing_def setRefreshing_def addToRefreshQueue_def
          refreshTokens_gotTokens_def Let_def)
  show ?thesis
    using none valid expired by (simp add: cond)
qed

theorem getValidTokens_decision_witness:
  "(0::int) \<le> 4540000
   \<and> exchanges (run [Call_getValidTokens ''user-1'', Resume 0 4540000, Resume 0 4540001]
        (TokenManager_new [''user-1'' \<mapsto>
           \<lparr>access_token = ''a'', refresh_token = ''r'', expires_in = 3600, scope = ''s'',
            token_type = ''bearer'', expiry_date = Some 4600000\<rparr>])) = [(''user-1'', ''r'')]
   \<and> settled (run [Call_getValidTokens ''user-1'', Resume 0 1100000]
        (TokenManager_new [''user-1'' \<mapsto>
           \<lparr>access_token = ''a'', refresh_token = ''r'', expires_in = 3600, scope = ''s'',
            token_type = ''bearer'', expiry_date = Some 4600000\<rparr>])) 0
       = Some (Resolved
           \<lparr>access_token = ''a'', refresh_token = ''r'', expires_in = 3600, scope = ''s'',
            token_type = ''bearer'', expiry_date = Some 4600000\<rparr>)
   \<and> settled (run [Call_getValidTokens ''user-2'', Resume 0 1100000]
        (TokenManager_new [''user-1'' \<mapsto>
           \<lparr>access_token = ''a'', refresh_token = ''r'', expires_in = 3600, scope = ''s'',
            token_type = ''bearer'', expiry_date = Some 4600000\<rparr>])) 0
       = Some (Rejected ''No tokens found for user'')
   \<and> refreshQueue (run [Call_getValidTokens ''user-1'', Resume 1 4540000]
        (step (Call_refreshTokens ''user-1'')
           (TokenManager_new [''user-1'' \<mapsto>
              \<lparr>access_token = ''a'', refresh_token = ''r'', expires_in = 3600, scope = ''s'',
               token_type = ''bearer'', expiry_date = Some 4600000\<rparr>]))) ''user-1''
       = Some [1]"
proof -
  let ?t = "\<lparr>access_token = ''a'', refresh_token = ''r'', expires_in = 3600, scope = ''s'',
            token_type = ''bearer'', expiry_date = Some 4600000\<rparr>"
  let ?tm = "TokenManager_new [''user-1'' \<mapsto> ?t]"
  let ?busy = "step (Call_refreshTokens ''user-1'') ?tm"
  have p0: "promises ?tm = 0" and e0: "exchanges ?tm = []"
    and q0: "refreshQueue ?tm ''user-1'' = None" and s0: "tokenStore ?tm ''user-1'' = Some ?t"
    and n0: "tokenStore ?tm ''user-2'' = None"
    and fresh: "settled ?tm (promises ?tm) = None"
    by (simp_all add: TokenManager_new_def)
  have p1: "promises ?busy = 1" and q1: "refreshQueue ?busy ''user-1'' = Some []"
    and s1: "tokenStore ?busy ''user-1'' = Some ?t"
    and fresh1: "settled ?busy (promises ?busy) = None"
    by (simp_all add: TokenManager_new_def refreshTokens_def isRefreshing_def setRefreshing_def)
  have late: "(0::int) \<le> 4540000" and early: "(0::int) \<le> 1100000"
    by simp_all
  from getValidTokens_decision [OF late fresh, of "''user-1''" 4540001] s0 q0
  have a: "exchanges (run [Call_getValidTokens ''user-1'', Resume 0 4540000, Resume 0 4540001] ?tm)
          = [(''user-1'', ''r'')]"
    unfolding p0 e0 by simp
  from getValidTokens_decision [OF early fresh, of "''user-1''" 0] s0
  have b: "settled (run [Call_getValidTokens ''user-1'', Resume 0 1100000] ?tm) 0
             = Some (Resolved ?t)"
    unfolding p0 by simp
  from getValidTokens_decision [OF early fresh, of "''user-2''" 0] n0
  have c: "settled (run [Call_getValidTokens ''user-2'', Resume 0 1100000] ?tm) 0
             = Some (Rejected ''No tokens found for user'')"
    unfolding p0 by simp
  from getValidTokens_decision [OF late fresh1, of "''user-1''" 0] s1 q1
  have d: "refreshQueue (run [Call_getValidTokens ''user-1'', Resume 1 4540000] ?busy) ''user-1''
             = Some [1]"
    unfolding p1 by simp
  from a b c d show ?thesis
    by simp
qed

section \<open>Properties of PKCE\<close>

lemma length_sextets: "length (sextets bs) = (4 * length bs + 2) div 3"
  by (induction bs rule: sextets.induct) simp_all

lemma sextets_bound: "i \<in> set (sextets bs) \<Longrightarrow> i < 64"
proof (induction bs arbitrary: i rule: sextets.induct)
  case (1 a b c rest)
  have "unat a < 256" "unat b < 256" "unat c < 256"
    using unsigned_less [of a] unsigned_less [of b] unsigned_less [of c] by simp_all
  with 1 show ?case by auto
next
  case (2 a b)
  have "unat a < 256" "unat b < 256"
    using unsigned_less [of a] unsigned_less [of b] by simp_all
  with 2 show ?case by auto
next
  case (3 a)
  have "unat a < 256" using unsigned_less [of a] by simp
  with 3 show ?case by auto
next
  case 4
  then show ?case by simp
qed

lemma alphabet_ascii:
  "\<forall>c \<in> set (js ''ABCDEFGHIJKLMNOPQRSTUVWXYZabcdefghijklmnopqrstuvwxyz0123456789-_''). c < 0x80"
  by (simp add: js_def)

lemma length_alphabet:
  "length (js ''ABCDEFGHIJKLMNOPQRSTUVWXYZabcdefghijklmnopqrstuvwxyz0123456789-_'') = 64"
  by (simp add: js_def)

lemma base64url_ascii: "c \<in> set (base64url bs) \<Longrightarrow> c < 0x80"
proof -
  assume "c \<in> set (base64url bs)"
  then obtain i where i: "i \<in> set (sextets bs)"
    and c: "c = js ''ABCDEFGHIJKLMNOPQRSTUVWXYZabcdefghijklmnopqrstuvwxyz0123456789-_'' ! i"
    by (auto simp add: base64url_def)
  from i have "i < 64" by (rule sextets_bound)
  then have "c \<in> set (js ''ABCDEFGHIJKLMNOPQRSTUVWXYZabcdefghijklmnopqrstuvwxyz0123456789-_'')"
    unfolding c by (intro nth_mem) (simp add: length_alphabet)
  then show ?thesis using alphabet_ascii by blast
qed

lemma length_base64url: "length (base64url bs) = (4 * length bs + 2) div 3"
  by (simp add: base64url_def length_sextets)

lemma ascii_not_surrogate:
  "(c :: 16 word) < 0x80 \<Longrightarrow> \<not> is_high_surrogate c \<and> \<not> is_low_surrogate c \<and> unat c < 0x80"
  by (simp add: is_high_surrogate_def is_low_surrogate_def word_le_nat_alt word_less_nat_alt)

lemma length_utf8_ascii: "\<forall>c \<in> set s. c < 0x80 \<Longrightarrow> length (utf8_encode s) = length s"
  by (induction s rule: utf8_encode.induct)
     (simp_all add: ascii_not_surrogate utf8_of_code_point_def)

lemma challenge_bytes:
  assumes "length digest = 32"
  shows "length (utf8_encode (base64url digest)) = 43"
proof -
  have "length (utf8_encode (base64url digest)) = length (base64url digest)"
    by (intro length_utf8_ascii ballI) (rule base64url_ascii)
  then show ?thesis using assms by (simp add: length_base64url)
qed

text \<open>
  What holds of the generator and the check: \<open>createCodeVerifier\<close> fails exactly for a
  length outside 43..128 and otherwise returns a verifier of the length asked for;
  \<open>verifyCodeChallenge\<close> accepts a verifier of valid length together with its own challenge.
\<close>

lemma createCodeVerifier_range:
  "(\<exists>e. createCodeVerifier randomBytes len = Inl e) \<longleftrightarrow> len < 43 \<or> 128 < len"
  by (simp add: createCodeVerifier_def)

lemma createCodeVerifier_length:
  assumes "43 \<le> len" "len \<le> 128" and "length (randomBytes (nat len)) = nat len"
  shows "\<exists>v. createCodeVerifier randomBytes len = Inr v \<and> int (length v) = len"
  using assms by (simp add: createCodeVerifier_def length_base64url)

lemma verify_accepts_matching_pair:
  assumes "length (sha256 (utf8_encode codeVerifier)) = 32"
    and "43 \<le> length codeVerifier" "length codeVerifier \<le> 128"
  shows "\<exists>c. createCodeChallenge sha256 codeVerifier = Inr c
           \<and> verifyCodeChallenge sha256 codeVerifier c = Inr True"
proof -
  have "length (base64url (sha256 (utf8_encode codeVerifier))) = 43"
    using assms(1) by (simp add: length_base64url)
  then have "base64url (sha256 (utf8_encode codeVerifier)) \<noteq> []"
    by auto
  with assms(2,3) show ?thesis
    by (auto simp add: createCodeChallenge_def verifyCodeChallenge_def timingSafeEqual_def Let_def)
qed

text \<open>
  C10. \<open>verifyCodeChallenge\<close> is declared to return a boolean. For a non-empty verifier and
  a non-empty challenge it throws instead: \<open>createCodeChallenge\<close> throws when the verifier's
  length is outside 43..128, and \<open>timingSafeEqual\<close> throws when the UTF-8 byte length of the
  supplied challenge is not 43, the byte length of the recomputed challenge. These are the
  only cases in which it throws. The SHA-256 digest has 32 bytes.
\<close>

theorem verifyCodeChallenge_throws:
  assumes digest: "length (sha256 (utf8_encode codeVerifier)) = 32"
    and nonempty: "codeVerifier \<noteq> []" "codeChallenge \<noteq> []"
  shows "(length codeVerifier < 43 \<or> 128 < length codeVerifier \<longrightarrow>
            verifyCodeChallenge sha256 codeVerifier codeChallenge
              = Inl (Error ''Invalid code verifier''))
       \<and> (43 \<le> length codeVerifier \<and> length codeVerifier \<le> 128
            \<and> length (utf8_encode codeChallenge) \<noteq> 43 \<longrightarrow>
            verifyCodeChallenge sha256 codeVerifier codeChallenge
              = Inl (RangeError ''Input buffers must have the same byte length''))
       \<and> ((\<exists>e. verifyCodeChallenge sha256 codeVerifier codeChallenge = Inl e) \<longleftrightarrow>
            length codeVerifier < 43 \<or> 128 < length codeVerifier
            \<or> length (utf8_encode codeChallenge) \<noteq> 43)"
  using nonempty challenge_bytes [OF digest]
  by (auto simp add: verifyCodeChallenge_def createCodeChallenge_def timingSafeEqual_def Let_def)

theorem verifyCodeChallenge_throws_witness:
  "verifyCodeChallenge
     (\<lambda>m. map word_of_nat [102, 211, 79, 186, 113, 248, 244, 80, 247, 228, 85, 152, 133, 62,
        83, 191, 194, 59, 189, 18, 144, 39, 203, 177, 49, 162, 244, 255, 215, 135, 140, 208])
     (js ''too-short'') (js ''ZtNPunH49FD35FWYhT5Tv8I7vRKQJ8uxMaL0_9eHjNA'')
     = Inl (Error ''Invalid code verifier'')
   \<and> verifyCodeChallenge
     (\<lambda>m. map word_of_nat [102, 211, 79, 186, 113, 248, 244, 80, 247, 228, 85, 152, 133, 62,
        83, 191, 194, 59, 189, 18, 144, 39, 203, 177, 49, 162, 244, 255, 215, 135, 140, 208])
     (replicate 43 0x61) (js ''ZtNPunH49FD35FWYhT5Tv8I7vRKQJ8uxMaL0_9eHjN'')
     = Inl (RangeError ''Input buffers must have the same byte length'')"
proof -
  let ?sha = "\<lambda>m :: buffer. map word_of_nat [102, 211, 79, 186, 113, 248, 244, 80, 247, 228, 85,
        152, 133, 62, 83, 191, 194, 59, 189, 18, 144, 39, 203, 177, 49, 162, 244, 255, 215, 135,
        140, 208] :: buffer"
  have d: "length (?sha m) = 32" for m by simp
  have n1: "js ''too-short'' \<noteq> []" "js ''ZtNPunH49FD35FWYhT5Tv8I7vRKQJ8uxMaL0_9eHjNA'' \<noteq> []"
    and n2: "replicate 43 (0x61 :: 16 word) \<noteq> []" "js ''ZtNPunH49FD35FWYhT5Tv8I7vRKQJ8uxMaL0_9eHjN'' \<noteq> []"
    by (simp_all add: js_def)
  have l1: "length (js ''too-short'') < 43" by (simp add: js_def)
  have l2: "length (utf8_encode (js ''ZtNPunH49FD35FWYhT5Tv8I7vRKQJ8uxMaL0_9eHjN'')) \<noteq> 43"
    by (simp add: js_def utf8_of_code_point_def is_high_surrogate_def is_low_surrogate_def)
  from verifyCodeChallenge_throws [of ?sha, OF d n1] l1
  have a: "verifyCodeChallenge ?sha (js ''too-short'')
             (js ''ZtNPunH49FD35FWYhT5Tv8I7vRKQJ8uxMaL0_9eHjNA'') = Inl (Error ''Invalid code verifier'')"
    by blast
  from verifyCodeChallenge_throws [of ?sha, OF d n2] l2
  have b: "verifyCodeChallenge ?sha (replicate 43 0x61)
             (js ''ZtNPunH49FD35FWYhT5Tv8I7vRKQJ8uxMaL0_9eHjN'')
             = Inl (RangeError ''Input buffers must have the same byte length'')"
    by simp
  from a b show ?thesis by simp
qed

text \<open>
  C9 fails on the code. The verifier is 43 times the letter a; the digest parameter returns
  the SHA-256 digest of that verifier, so the challenge is the one Node computes. One bit
  (bit 7) of the first character of the challenge is flipped. The mutated character takes
  two bytes in UTF-8, the buffers differ in length, and \<open>verifyCodeChallenge\<close> throws a
  \<^verbatim>\<open>RangeError\<close> where its documentation says it returns false.
\<close>

theorem verify_throws_on_flipped_challenge:
  "createCodeChallenge
     (\<lambda>m. map word_of_nat [102, 211, 79, 186, 113, 248, 244, 80, 247, 228, 85, 152, 133, 62,
        83, 191, 194, 59, 189, 18, 144, 39, 203, 177, 49, 162, 244, 255, 215, 135, 140, 208])
     (replicate 43 0x61) = Inr (js ''ZtNPunH49FD35FWYhT5Tv8I7vRKQJ8uxMaL0_9eHjNA'')
   \<and> verifyCodeChallenge
     (\<lambda>m. map word_of_nat [102, 211, 79, 186, 113, 248, 244, 80, 247, 228, 85, 152, 133, 62,
        83, 191, 194, 59, 189, 18, 144, 39, 203, 177, 49, 162, 244, 255, 215, 135, 140, 208])
     (replicate 43 0x61)
     ((js ''ZtNPunH49FD35FWYhT5Tv8I7vRKQJ8uxMaL0_9eHjNA'')
        [0 := js ''ZtNPunH49FD35FWYhT5Tv8I7vRKQJ8uxMaL0_9eHjNA'' ! 0 XOR 0x80])
     = Inl (RangeError ''Input buffers must have the same byte length'')"
  by (simp add: verifyCodeChallenge_def createCodeChallenge_def timingSafeEqual_def Let_def
        base64url_def js_def utf8_of_code_point_def is_high_surrogate_def is_low_surrogate_def)

section \<open>Properties of the token codec\<close>

lemma hex_value_digits:
  "\<forall>n \<in> set [0..<16]. hex_value (js ''0123456789abcdef'' ! n) = Some n"
  by code_simp

lemma hex_value_digit:
  assumes "n < 16"
  shows "hex_value (js ''0123456789abcdef'' ! n) = Some n"
proof -
  from assms have "n \<in> set [0..<16]" by simp
  with hex_value_digits show ?thesis by blast
qed

lemma hex_value_low_byte:
  "hex_value 0x0130 = Some 0 \<and> hex_value 0x0141 = Some 10 \<and> hex_value 0x0067 = None
   \<and> hex_decode [0x0131, 0x0141] = [0x1A]"
  by code_simp

lemma hex_decode_byte: "hex_decode (hex_byte b @ rest) = b # hex_decode rest"
proof -
  have "unat b < 256" using unsigned_less [of b] by simp
  then have hi: "unat b div 16 < 16" and lo: "unat b mod 16 < 16" by simp_all
  have "word_of_nat (16 * (unat b div 16) + unat b mod 16) = (word_of_nat (unat b) :: 8 word)"
    by simp
  then have "(word_of_nat (16 * (unat b div 16) + unat b mod 16) :: 8 word) = b"
    by simp
  then show ?thesis
    by (simp add: hex_byte_def hex_value_digit [OF hi] hex_value_digit [OF lo])
qed

lemma hex_decode_encode_append: "hex_decode (hex_encode bs @ rest) = bs @ hex_decode rest"
  by (induction bs) (simp_all add: hex_encode_def hex_decode_byte)

lemma hex_decode_encode: "hex_decode (hex_encode bs) = bs"
  using hex_decode_encode_append [of bs "[]"] by simp





lemma TokenEncryption_new_key:
  assumes "TokenEncryption_new opt enforce = Inr te" and "encryptionKey te = Some key"
  shows "length key = KEY_LENGTH"
  using assms
  by (auto simp add: TokenEncryption_new_def Let_def split: option.splits key_option.splits if_splits)

text \<open>
  C4 as stated fails. A JavaScript string may hold an unpaired surrogate; its UTF-8 encoding
  is that of U+FFFD. So the strings \<open>[0xD800]\<close> and \<open>[0xFFFD]\<close> are encrypted from the
  same bytes, and whatever the cipher, the decoder, the key and the initialisation vector
  are, decryption cannot give back both.
\<close>

theorem round_trip_fails_on_unpaired_surrogate:
  "utf8_encode [0xD800] = utf8_encode [0xFFFD]
   \<and> \<not> (\<exists>N te key iv.
          encryptionKey te = Some key
        \<and> (\<exists>blob. encrypt N te iv [0xD800] = Inr blob \<and> decrypt N te blob = Inr [0xD800])
        \<and> (\<exists>blob. encrypt N te iv [0xFFFD] = Inr blob \<and> decrypt N te blob = Inr [0xFFFD]))"
proof -
  have same: "utf8_encode [0xD800] = utf8_encode [0xFFFD]"
    by (simp add: is_high_surrogate_def is_low_surrogate_def)
  have "encrypt N te iv [0xD800] = encrypt N te iv [0xFFFD]"
    if "encryptionKey te = Some key" for N te iv key
    using that unfolding encrypt_def same by (simp del: utf8_encode.simps)
  then show ?thesis
    using same by fastforce
qed

text \<open>
  C4, amended. A codec constructed with a key (the constructor accepts 32 bytes only)
  encrypts \<open>x\<close> under a 16-byte initialisation vector to the hex text of vector, tag and
  ciphertext, and decrypts that text to \<open>x\<close>, for every string \<open>x\<close> whose UTF-8 encoding
  decodes back to \<open>x\<close>; the empty string and non-ASCII text are not excluded. The cipher
  returns a 16-byte tag and decrypts what it encrypted.
\<close>

theorem decrypt_encrypt:
  assumes configured: "TokenEncryption_new opt enforce = Inr te" "encryptionKey te = Some key"
    and iv: "length iv = IV_LENGTH"
    and cipher: "gcm_encrypt N key iv (utf8_encode x) = (ciphertext, authTag)"
      "length authTag = AUTH_TAG_LENGTH"
      "gcm_decrypt N key iv authTag ciphertext = Inr (utf8_encode x)"
    and decoded: "utf8_decode N (utf8_encode x) = x"
  shows "length key = 32
       \<and> encrypt N te iv x = Inr (hex_encode (iv @ authTag @ ciphertext))
       \<and> decrypt N te (hex_encode (iv @ authTag @ ciphertext)) = Inr x"
proof -
  have k: "length key = 32"
    using TokenEncryption_new_key [OF configured] by (simp add: KEY_LENGTH_def)
  have e: "encrypt N te iv x = Inr (hex_encode (iv @ authTag @ ciphertext))"
    using configured(2) cipher(1) by (simp add: encrypt_def hex_decode_encode)
  have d: "decrypt N te (hex_encode (iv @ authTag @ ciphertext)) = Inr x"
    using configured(2) iv cipher(2,3) decoded
    by (simp add: decrypt_def hex_decode_encode Let_def)
  from k e d show ?thesis by simp
qed

theorem decrypt_encrypt_witness:
  "encrypt toy_node \<lparr>encryptionKey = Some (replicate 32 0xAB), enforceEncryption = False\<rparr>
     (replicate 16 0x01) (js ''s3cret'')
     = Inr (js ''01010101010101010101010101010101aaaaaaaaaaaaaaaaaaaaaaaaaaaaaaaa296939283f2e'')
   \<and> decrypt toy_node \<lparr>encryptionKey = Some (replicate 32 0xAB), enforceEncryption = False\<rparr>
       (js ''01010101010101010101010101010101aaaaaaaaaaaaaaaaaaaaaaaaaaaaaaaa296939283f2e'')
     = Inr (js ''s3cret'')"
proof -
  let ?key = "replicate 32 0xAB :: buffer"
  let ?iv = "replicate 16 0x01 :: buffer"
  let ?te = "\<lparr>encryptionKey = Some ?key, enforceEncryption = False\<rparr>"
  let ?ct = "map (\<lambda>b. b XOR 0x5A) (utf8_encode (js ''s3cret'')) :: buffer"
  let ?tag = "map2 (XOR) (take 16 ?key) ?iv :: buffer"
  have h1: "TokenEncryption_new (Some (KeyBuffer ?key)) None = Inr ?te"
    by (simp add: TokenEncryption_new_def KEY_LENGTH_def)
  have h2: "encryptionKey ?te = Some ?key" by simp
  have h3: "length ?iv = IV_LENGTH" by (simp add: IV_LENGTH_def)
  have h4: "gcm_encrypt toy_node ?key ?iv (utf8_encode (js ''s3cret'')) = (?ct, ?tag)"
    by (simp add: toy_node_def)
  have h5: "length ?tag = AUTH_TAG_LENGTH" by (simp add: AUTH_TAG_LENGTH_def)
  have h6: "gcm_decrypt toy_node ?key ?iv ?tag ?ct = Inr (utf8_encode (js ''s3cret''))"
    by (simp add: toy_node_def o_def xor.assoc)
  have h7: "utf8_decode toy_node (utf8_encode (js ''s3cret'')) = js ''s3cret''"
    by (simp add: toy_node_def js_def utf8_of_code_point_def is_high_surrogate_def
          is_low_surrogate_def)
  have blob: "hex_encode (?iv @ ?tag @ ?ct)
      = js ''01010101010101010101010101010101aaaaaaaaaaaaaaaaaaaaaaaaaaaaaaaa296939283f2e''"
    by code_simp
  from decrypt_encrypt [OF h1 h2 h3 h4 h5 h6 h7]
  show ?thesis unfolding blob by simp
qed







section \<open>Properties of the authorization service\<close>

text \<open>
  C8 as stated fails. The payload \<open>{}\<close> is valid JSON but carries neither \<open>userId\<close> nor
  \<open>codeVerifier\<close>; \<^verbatim>\<open>JSON.parse\<close> returns the empty object for it. \<open>validateState\<close>
  returns an object whose two fields are undefined, not \<^verbatim>\<open>null\<close>.
\<close>

theorem validateState_returns_fields_unchecked:
  "fst (validateState
          (\<lambda>s. if s = ''{}'' then Inr (JObject []) else Inl (SyntaxError ''Unexpected token''))
          ''st'' 1500 (saveState ''st'' ''{}'' 600000 1000 Map.empty))
     = Inr (Some (None, None))"
  by (simp add: validateState_def validateAndRemoveState_def saveState_def parse_stateData_def)

text \<open>
  C8, amended. \<open>validateState\<close> never raises and leaves the storage as
  \<open>validateAndRemoveState\<close> does. It returns \<^verbatim>\<open>null\<close> when the state is missing or expired,
  when the payload is the empty string, when \<^verbatim>\<open>JSON.parse\<close> throws, and when the payload
  parses to \<^verbatim>\<open>null\<close>. For an object it returns the values found under \<open>userId\<close> and
  \<open>codeVerifier\<close> as they are, undefined when absent; for any other JSON value it returns
  two undefined fields.
\<close>

theorem validateState_never_raises:
  "(\<exists>r. fst (validateState JSON_parse state now sts) = Inr r)
   \<and> snd (validateState JSON_parse state now sts) = snd (validateAndRemoveState state now sts)
   \<and> (fst (validateAndRemoveState state now sts) = None \<longrightarrow>
        fst (validateState JSON_parse state now sts) = Inr None)
   \<and> (\<forall>d. fst (validateAndRemoveState state now sts) = Some d \<longrightarrow>
        (d = [] \<or> (\<exists>e. JSON_parse d = Inl e) \<or> JSON_parse d = Inr JNull \<longrightarrow>
           fst (validateState JSON_parse state now sts) = Inr None)
      \<and> (\<forall>props. d \<noteq> [] \<and> JSON_parse d = Inr (JObject props) \<longrightarrow>
           fst (validateState JSON_parse state now sts)
             = Inr (Some (map_of props ''userId'', map_of props ''codeVerifier'')))
      \<and> (\<forall>v. d \<noteq> [] \<and> JSON_parse d = Inr v \<and> v \<noteq> JNull \<and> (\<forall>props. v \<noteq> JObject props) \<longrightarrow>
           fst (validateState JSON_parse state now sts) = Inr (Some (None, None))))"
proof -
  obtain stateData sts' where v: "validateAndRemoveState state now sts = (stateData, sts')"
    by (cases "validateAndRemoveState state now sts")
  show ?thesis
  proof (cases stateData)
    case None
    with v show ?thesis by (simp add: validateState_def)
  next
    case (Some d)
    show ?thesis
    proof (cases "JSON_parse d")
      case (Inl e)
      with v Some show ?thesis by (simp add: validateState_def parse_stateData_def)
    next
      case (Inr val)
      with v Some show ?thesis
        by (cases val) (simp_all add: validateState_def parse_stateData_def)
    qed
  qed
qed

theorem validateState_never_raises_witness:
  \<open>fst (validateState
          (\<lambda>s. if s = ''{"userId":"user-1","codeVerifier":"v1"}''
               then Inr (JObject [(''userId'', JString ''user-1''), (''codeVerifier'', JString ''v1'')])
               else if s = ''null'' then Inr JNull
               else if s = ''5'' then Inr (JNumber 5)
               else Inl (SyntaxError ''Unexpected token''))
          ''st'' 1500 (saveState ''st'' ''{not json'' 600000 1000 Map.empty)) = Inr None
   \<and> fst (validateState
          (\<lambda>s. if s = ''{"userId":"user-1","codeVerifier":"v1"}''
               then Inr (JObject [(''userId'', JString ''user-1''), (''codeVerifier'', JString ''v1'')])
               else if s = ''null'' then Inr JNull
               else if s = ''5'' then Inr (JNumber 5)
               else Inl (SyntaxError ''Unexpected token''))
          ''st'' 1500 Map.empty) = Inr None
   \<and> fst (validateState
          (\<lambda>s. if s = ''{"userId":"user-1","codeVerifier":"v1"}''
               then Inr (JObject [(''userId'', JString ''user-1''), (''codeVerifier'', JString ''v1'')])
               else if s = ''null'' then Inr JNull
               else if s = ''5'' then Inr (JNumber 5)
               else Inl (SyntaxError ''Unexpected token''))
          ''st'' 1500
          (saveState ''st'' ''{"userId":"user-1","codeVerifier":"v1"}'' 600000 1000 Map.empty))
       = Inr (Some (Some (JString ''user-1''), Some (JString ''v1'')))
   \<and> fst (validateState
          (\<lambda>s. if s = ''{"userId":"user-1","codeVerifier":"v1"}''
               then Inr (JObject [(''userId'', JString ''user-1''), (''codeVerifier'', JString ''v1'')])
               else if s = ''null'' then Inr JNull
               else if s = ''5'' then Inr (JNumber 5)
               else Inl (SyntaxError ''Unexpected token''))
          ''st'' 1500 (saveState ''st'' ''5'' 600000 1000 Map.empty))
       = Inr (Some (None, None))\<close>
proof -
  let ?good = \<open>''{"userId":"user-1","codeVerifier":"v1"}''\<close>
  let ?parse = "\<lambda>s. if s = ?good
               then Inr (JObject [(''userId'', JString ''user-1''), (''codeVerifier'', JString ''v1'')])
               else if s = ''null'' then Inr JNull
               else if s = ''5'' then Inr (JNumber 5)
               else Inl (SyntaxError ''Unexpected token'')"
  have stored: "fst (validateAndRemoveState ''st'' 1500 (saveState ''st'' d 600000 1000 Map.empty))
                  = Some d" for d
    by (simp add: validateAndRemoveState_def saveState_def)
  have missing: "fst (validateAndRemoveState ''st'' 1500 Map.empty) = None"
    by (simp add: validateAndRemoveState_def)
  have throws: "\<exists>e. ?parse ''{not json'' = Inl e" by simp
  have object: "?good \<noteq> [] \<and> ?parse ?good
      = Inr (JObject [(''userId'', JString ''user-1''), (''codeVerifier'', JString ''v1'')])"
    by simp
  have number: "''5'' \<noteq> [] \<and> ?parse ''5'' = Inr (JNumber 5) \<and> JNumber 5 \<noteq> JNull
      \<and> (\<forall>props. JNumber 5 \<noteq> JObject props)"
    by simp
  from validateState_never_raises [of ?parse "''st''" 1500
      "saveState ''st'' ''{not json'' 600000 1000 Map.empty"] stored throws
  have a: "fst (validateState ?parse ''st'' 1500
                  (saveState ''st'' ''{not json'' 600000 1000 Map.empty)) = Inr None"
    by blast
  from validateState_never_raises [of ?parse "''st''" 1500 Map.empty] missing
  have b: "fst (validateState ?parse ''st'' 1500 Map.empty) = Inr None"
    by blast
  from validateState_never_raises [of ?parse "''st''" 1500
      "saveState ''st'' ?good 600000 1000 Map.empty"] stored [of ?good] object
  have "fst (validateState ?parse ''st'' 1500 (saveState ''st'' ?good 600000 1000 Map.empty))
          = Inr (Some (map_of [(''userId'', JString ''user-1''), (''codeVerifier'', JString ''v1'')]
                         ''userId'',
                       map_of [(''userId'', JString ''user-1''), (''codeVerifier'', JString ''v1'')]
                         ''codeVerifier''))"
    by blast
  then have c: "fst (validateState ?parse ''st'' 1500 (saveState ''st'' ?good 600000 1000 Map.empty))
          = Inr (Some (Some (JString ''user-1''), Some (JString ''v1'')))"
    by simp
  from validateState_never_raises [of ?parse "''st''" 1500
      "saveState ''st'' ''5'' 600000 1000 Map.empty"] stored [of "''5''"] number
  have d: "fst (validateState ?parse ''st'' 1500 (saveState ''st'' ''5'' 600000 1000 Map.empty))
          = Inr (Some (None, None))"
    by blast
  from a b c d show ?thesis by simp
qed

end
